theory Spec2Isabelle
  imports Main "HOL-Library.Char_ord" "HOL-Library.List_Lexorder"
begin

section \<open>Python values, exceptions, the log\<close>

text \<open>
  The script \<^verbatim>\<open>meta_update.py\<close> is glue over four libraries: \<^verbatim>\<open>requests\<close>,
  \<^verbatim>\<open>rdflib\<close>, \<^verbatim>\<open>uuid\<close> and \<^verbatim>\<open>yaml\<close>. Its own functions are embedded below,
  one definition per function. What a library call returns is an argument of the
  embedding (the Turtle parser, \<^verbatim>\<open>int()\<close> on a string, the sequence of
  \<^verbatim>\<open>uuid4()\<close> draws, the outcome of \<^verbatim>\<open>requests.get\<close>), so every theorem holds
  for whatever the libraries do.

  Strings are \<^typ>\<open>string\<close>; \<^verbatim>\<open>list.sort()\<close> on strings is the lexicographic
  order on character codes.
\<close>

datatype exn =
    TypeError | ValueError | KeyError | AttributeError
  | ParserError string | RequestException string

text \<open>
  Python values as the script meets them. Mutable containers (dict, list) are objects
  of a store and are denoted by their address (\<open>PRef\<close>); everything else is
  immutable and is written by value. \<open>POther b s\<close> stands for any other immutable
  value (float, Decimal, date, ...), with its truth value \<open>b\<close> and its \<^verbatim>\<open>repr\<close>.
\<close>

datatype pyval =
    PNone | PBool bool | PInt int | PStr string | POther bool string | PRef nat

text \<open>Python's \<^verbatim>\<open>bool(v)\<close> for an immutable value.\<close>

fun truthy :: "pyval \<Rightarrow> bool" where
  "truthy PNone = False"
| "truthy (PBool b) = b"
| "truthy (PInt i) = (i \<noteq> 0)"
| "truthy (PStr s) = (s \<noteq> [])"
| "truthy (POther b s) = b"
| "truthy (PRef a) = True"

text \<open>
  A Python dict keeps its keys in insertion order: an association list whose keys are
  distinct. \<^verbatim>\<open>d[k] = v\<close> replaces the value in place when \<open>k\<close> is present and
  appends the entry otherwise.
\<close>

fun dict_set :: "'k \<Rightarrow> 'v \<Rightarrow> ('k \<times> 'v) list \<Rightarrow> ('k \<times> 'v) list" where
  "dict_set k v [] = [(k, v)]"
| "dict_set k v (e # es) = (if fst e = k then (k, v) # es else e # dict_set k v es)"

section \<open>The relationship graph (rdflib)\<close>

text \<open>
  An RDF node is a URI reference, a blank node or a literal. A literal has its
  lexical form and the Python value rdflib converts it to (\<^verbatim>\<open>Literal.value\<close>,
  \<open>PNone\<close> when there is no conversion). All three are subclasses of \<^verbatim>\<open>str\<close>:
  \<open>str_node\<close> is the string they are.
\<close>

datatype node = URIRef string | BNode string | Literal string pyval

fun str_node :: "node \<Rightarrow> string" where
  "str_node (URIRef u) = u"
| "str_node (BNode b) = b"
| "str_node (Literal lexical v) = lexical"

text \<open>
  \<^verbatim>\<open>bool(node)\<close>: a URI reference or blank node is a plain string, true when not
  empty; \<^verbatim>\<open>Literal.__bool__\<close> is the truth value of the converted value, or of
  the lexical form when there is none.
\<close>

fun node_bool :: "node \<Rightarrow> bool" where
  "node_bool (URIRef u) = (u \<noteq> [])"
| "node_bool (BNode b) = (b \<noteq> [])"
| "node_bool (Literal lexical v) = (if v \<noteq> PNone then truthy v else lexical \<noteq> [])"

text \<open>\<^verbatim>\<open>node.value\<close>: only a literal has the attribute.\<close>

fun node_value :: "node \<Rightarrow> exn + pyval" where
  "node_value (Literal lexical v) = Inr v"
| "node_value (URIRef u) = Inl AttributeError"
| "node_value (BNode b) = Inl AttributeError"

text \<open>
  A graph is a set of triples; the list is the order in which the store enumerates
  them, each triple once. \<open>objects\<close> is \<^verbatim>\<open>Graph.objects(s, p)\<close> and \<open>graph_value\<close>
  is \<^verbatim>\<open>Graph.value(s, p)\<close>, which returns the first object or \<^verbatim>\<open>None\<close>.
\<close>

type_synonym triple = "node \<times> node \<times> node"
type_synonym graph = "triple list"

definition objects :: "graph \<Rightarrow> node \<Rightarrow> node \<Rightarrow> node list" where
  "objects g s p = map (\<lambda>t. snd (snd t)) (filter (\<lambda>t. fst t = s \<and> fst (snd t) = p) g)"

definition graph_value :: "graph \<Rightarrow> node \<Rightarrow> node \<Rightarrow> node option" where
  "graph_value g s p = (case objects g s p of [] \<Rightarrow> None | x # xs \<Rightarrow> Some x)"

definition BDR :: "string \<Rightarrow> node" where
  "BDR name = URIRef (''http://purl.bdrc.io/resource/'' @ name)"

definition BDO :: "string \<Rightarrow> node" where
  "BDO name = URIRef (''http://purl.bdrc.io/ontology/core/'' @ name)"

definition RDFS_comment :: node where
  "RDFS_comment = URIRef ''http://www.w3.org/2000/01/rdf-schema#comment''"

section \<open>Volume enumeration\<close>

text \<open>\<^verbatim>\<open>s.split(sep)\<close> for a one-character separator: never the empty list.\<close>

fun split :: "string \<Rightarrow> char \<Rightarrow> string list" where
  "split [] sep = [[]]"
| "split (c # cs) sep =
     (if c = sep then [] # split cs sep
      else (case split cs sep of [] \<Rightarrow> [[c]] | w # ws \<Rightarrow> (c # w) # ws))"

text \<open>\<^verbatim>\<open>URI.split("/")[-1]\<close>\<close>

definition get_img_grp_id :: "string \<Rightarrow> string" where
  "get_img_grp_id URI = last (split URI CHR ''/'')"

definition get_vol_img_grp_id_list :: "graph \<Rightarrow> string \<Rightarrow> string list" where
  "get_vol_img_grp_id_list g work_id =
     sort (map (\<lambda>volume. get_img_grp_id (str_node volume))
               (objects g (BDR work_id) (BDO ''instanceHasVolume'')))"

section \<open>Per-volume extraction\<close>

record vol_rec =
  image_group_id :: string
  title :: pyval
  volume_number :: int
  total_pages :: int

type_synonym vol_info = "(string \<times> vol_rec) list"

text \<open>
  \<^verbatim>\<open>int(x)\<close> for \<open>x\<close> the result of \<^verbatim>\<open>Graph.value\<close>: \<^verbatim>\<open>None\<close> raises TypeError; a
  node is a string, read by Python's integer syntax \<open>py_int\<close> (\<open>None\<close> where
  \<^verbatim>\<open>int\<close> raises ValueError).
\<close>

definition int_of :: "(string \<Rightarrow> int option) \<Rightarrow> node option \<Rightarrow> exn + int" where
  "int_of py_int x =
     (case x of
        None \<Rightarrow> Inl TypeError
      | Some n \<Rightarrow> (case py_int (str_node n) of None \<Rightarrow> Inl ValueError | Some i \<Rightarrow> Inr i))"

definition title_warning :: "string \<Rightarrow> string \<Rightarrow> string" where
  "title_warning work_id vol_img_grp_id =
     vol_img_grp_id @ '' in work id: '' @ work_id @ '' doesn't have proper title''"

text \<open>
  The body of the loop of \<^verbatim>\<open>parse_volume_info\<close> after the key is drawn: the
  title (a warning and the empty string when \<^verbatim>\<open>Graph.value\<close> gives \<^verbatim>\<open>None\<close> or
  a false node), the volume number (its exception is not caught), the page total
  (0 on any exception).
\<close>

definition volume_record ::
  "(string \<Rightarrow> int option) \<Rightarrow> graph \<Rightarrow> string \<Rightarrow> string \<Rightarrow> string list
     \<Rightarrow> (exn + vol_rec) \<times> string list" where
  "volume_record py_int g work_id vol_img_grp_id log =
     (let t = graph_value g (BDR vol_img_grp_id) RDFS_comment;
          (title_res, log1) =
            (case t of
               Some n \<Rightarrow>
                 if node_bool n then (node_value n, log)
                 else (Inr (PStr []), log @ [title_warning work_id vol_img_grp_id])
             | None \<Rightarrow> (Inr (PStr []), log @ [title_warning work_id vol_img_grp_id]))
      in case title_res of
           Inl e \<Rightarrow> (Inl e, log1)
         | Inr title_v \<Rightarrow>
            (case int_of py_int (graph_value g (BDR vol_img_grp_id) (BDO ''volumeNumber'')) of
               Inl e \<Rightarrow> (Inl e, log1)
             | Inr vn \<Rightarrow>
                (let tp = (case int_of py_int
                                  (graph_value g (BDR vol_img_grp_id) (BDO ''volumePagesTotal'')) of
                             Inl e \<Rightarrow> 0
                           | Inr i \<Rightarrow> i)
                 in (Inr \<lparr>image_group_id = vol_img_grp_id, title = title_v,
                           volume_number = vn, total_pages = tp\<rparr>, log1))))"

text \<open>
  The \<^verbatim>\<open>for\<close> loop. \<open>uuid4 i\<close> is the hex string of the \<open>i\<close>-th draw of
  \<^verbatim>\<open>uuid.uuid4()\<close>; an exception ends the loop and the mapping built so far is lost.
\<close>

fun volume_loop ::
  "(string \<Rightarrow> int option) \<Rightarrow> (nat \<Rightarrow> string) \<Rightarrow> graph \<Rightarrow> string \<Rightarrow> string list
     \<Rightarrow> nat \<Rightarrow> vol_info \<Rightarrow> string list \<Rightarrow> (exn + vol_info) \<times> string list" where
  "volume_loop py_int uuid4 g work_id [] i vol_info log = (Inr vol_info, log)"
| "volume_loop py_int uuid4 g work_id (vol_img_grp_id # ids) i vol_info log =
     (let uid = uuid4 i in
      case volume_record py_int g work_id vol_img_grp_id log of
        (Inl e, log1) \<Rightarrow> (Inl e, log1)
      | (Inr r, log1) \<Rightarrow>
          volume_loop py_int uuid4 g work_id ids (Suc i) (dict_set uid r vol_info) log1)"

text \<open>
  \<open>turtle\<close> is \<^verbatim>\<open>Graph().parse(data=_, format="ttl")\<close>: the parsed graph, or the
  exception the parser raises. The bare \<^verbatim>\<open>except\<close> catches every exception.
\<close>

definition parse_volume_info ::
  "(string \<Rightarrow> exn + graph) \<Rightarrow> (string \<Rightarrow> int option) \<Rightarrow> (nat \<Rightarrow> string)
     \<Rightarrow> string \<Rightarrow> string \<Rightarrow> string list \<Rightarrow> (exn + vol_info) \<times> string list" where
  "parse_volume_info turtle py_int uuid4 meta_ttl work_id log =
     (case turtle meta_ttl of
        Inl e \<Rightarrow> (Inr [], log @ [work_id @ ''.ttl Contains bad syntax''])
      | Inr g \<Rightarrow>
          volume_loop py_int uuid4 g work_id (get_vol_img_grp_id_list g work_id) 0 [] log)"

section \<open>The metadata document and the merge\<close>

text \<open>
  The document that \<^verbatim>\<open>yaml.safe_load\<close> returns is a graph of dict and list
  objects. The store gives every object an address; \<open>top\<close> is the next free one.
  A key of a dict is an immutable value.
\<close>

datatype pyobj = PDict "(pyval \<times> pyval) list" | PList "pyval list"

record store =
  cells :: "nat \<Rightarrow> pyobj"
  top :: nat

definition alloc :: "store \<Rightarrow> pyobj \<Rightarrow> pyval \<times> store" where
  "alloc st obj = (PRef (top st), st\<lparr>cells := (cells st)(top st := obj), top := Suc (top st)\<rparr>)"

text \<open>
  \<^verbatim>\<open>x[key]\<close> for a string key: KeyError on a dict without the key; TypeError on a
  list, a string and every other value.
\<close>

definition getitem :: "store \<Rightarrow> pyval \<Rightarrow> string \<Rightarrow> exn + pyval" where
  "getitem st x key =
     (case x of
        PRef a \<Rightarrow>
          (case cells st a of
             PDict kvs \<Rightarrow>
               (case map_of kvs (PStr key) of None \<Rightarrow> Inl KeyError | Some v \<Rightarrow> Inr v)
           | PList xs \<Rightarrow> Inl TypeError)
      | _ \<Rightarrow> Inl TypeError)"

text \<open>\<^verbatim>\<open>x[key] = v\<close> for a string key: only a dict accepts it, and is changed in place.\<close>

definition setitem :: "store \<Rightarrow> pyval \<Rightarrow> string \<Rightarrow> pyval \<Rightarrow> exn + store" where
  "setitem st x key v =
     (case x of
        PRef a \<Rightarrow>
          (case cells st a of
             PDict kvs \<Rightarrow> Inr (st\<lparr>cells := (cells st)(a := PDict (dict_set (PStr key) v kvs))\<rparr>)
           | PList xs \<Rightarrow> Inl TypeError)
      | _ \<Rightarrow> Inl TypeError)"

text \<open>
  The mapping \<^verbatim>\<open>parse_volume_info\<close> returns is made of fresh objects that nothing
  else refers to, so the extraction is written on values (\<^typ>\<open>vol_info\<close>) and the
  objects enter the store when the mapping is handed to the merge: one dict per
  record, with the four keys in the order of the source, then the mapping itself.
\<close>

definition record_items :: "vol_rec \<Rightarrow> (pyval \<times> pyval) list" where
  "record_items r =
     [(PStr ''image_group_id'', PStr (image_group_id r)),
      (PStr ''title'', title r),
      (PStr ''volume_number'', PInt (volume_number r)),
      (PStr ''total_pages'', PInt (total_pages r))]"

fun new_records :: "store \<Rightarrow> vol_info \<Rightarrow> (pyval \<times> pyval) list \<times> store" where
  "new_records st [] = ([], st)"
| "new_records st (e # es) =
     (let (a, st1) = alloc st (PDict (record_items (snd e)));
          (items, st2) = new_records st1 es
      in ((PStr (fst e), a) # items, st2))"

definition new_vol_info :: "store \<Rightarrow> vol_info \<Rightarrow> pyval \<times> store" where
  "new_vol_info st vi = (let (items, st1) = new_records st vi in alloc st1 (PDict items))"

text \<open>
  \<^verbatim>\<open>get_new_meta\<close>: the extraction runs outside the \<^verbatim>\<open>try\<close>, so its exception
  propagates; any exception of the assignment is caught and logged. The function
  returns the object it was given.
\<close>

definition get_new_meta ::
  "(string \<Rightarrow> exn + graph) \<Rightarrow> (string \<Rightarrow> int option) \<Rightarrow> (nat \<Rightarrow> string)
     \<Rightarrow> pyval \<Rightarrow> string \<Rightarrow> string \<Rightarrow> store \<Rightarrow> string list
     \<Rightarrow> (exn + pyval) \<times> store \<times> string list" where
  "get_new_meta turtle py_int uuid4 old_meta meta_ttl work_id st log =
     (case parse_volume_info turtle py_int uuid4 meta_ttl work_id log of
        (Inl e, log1) \<Rightarrow> (Inl e, st, log1)
      | (Inr vi, log1) \<Rightarrow>
          (let (volume_info, st1) = new_vol_info st vi in
           case getitem st1 old_meta ''source_metadata'' of
             Inl e \<Rightarrow> (Inr old_meta, st1, log1 @ [work_id @ '' doesn't have proper meta.yml''])
           | Inr sm \<Rightarrow>
               (case setitem st1 sm ''volume'' volume_info of
                  Inl e \<Rightarrow>
                    (Inr old_meta, st1, log1 @ [work_id @ '' doesn't have proper meta.yml''])
                | Inr st2 \<Rightarrow> (Inr old_meta, st2, log1))))"

section \<open>The catalog fetcher\<close>

text \<open>
  \<open>requests_get url\<close> is the outcome of \<^verbatim>\<open>requests.get(url)\<close>: a response,
  whatever its status code, or the exception it raises. The source calls neither
  \<^verbatim>\<open>raise_for_status\<close> nor reads \<^verbatim>\<open>status_code\<close>. The second component is
  standard output.
\<close>

record response =
  status_code :: nat
  body_text :: string

definition get_ttl ::
  "(string \<Rightarrow> exn + response) \<Rightarrow> string \<Rightarrow> string list \<Rightarrow> (exn + string) \<times> string list" where
  "get_ttl requests_get work_id out =
     (let out1 = out @ [''Downloading ttl file''] in
      case requests_get (''http://purl.bdrc.io/graph/'' @ work_id @ ''.ttl'') of
        Inr ttl \<Rightarrow> (Inr (body_text ttl), out1)
      | Inl e \<Rightarrow> (Inr [], out1 @ ['' TTL not Found!!!'']))"

section \<open>Vocabulary of the properties\<close>

text \<open>\<^verbatim>\<open>if title:\<close> succeeds: the volume has a comment node that is true.\<close>

definition has_title :: "graph \<Rightarrow> string \<Rightarrow> bool" where
  "has_title g vid =
     (case graph_value g (BDR vid) RDFS_comment of None \<Rightarrow> False | Some n \<Rightarrow> node_bool n)"

text \<open>A relation that is absent, or whose value \<^verbatim>\<open>int()\<close> does not accept.\<close>

definition not_coercible :: "(string \<Rightarrow> int option) \<Rightarrow> node option \<Rightarrow> bool" where
  "not_coercible py_int x = (case x of None \<Rightarrow> True | Some n \<Rightarrow> py_int (str_node n) = None)"

text \<open>
  The volumes for which the loop body raises nothing: the comment, when there is a
  true one, is a literal, and the volume number is there and is an integer.
\<close>

definition volume_ok :: "(string \<Rightarrow> int option) \<Rightarrow> graph \<Rightarrow> string \<Rightarrow> bool" where
  "volume_ok py_int g vid =
     ((case graph_value g (BDR vid) RDFS_comment of
         None \<Rightarrow> True
       | Some n \<Rightarrow> (case n of Literal l v \<Rightarrow> True | _ \<Rightarrow> \<not> node_bool n))
      \<and> \<not> not_coercible py_int (graph_value g (BDR vid) (BDO ''volumeNumber'')))"

text \<open>The mapping after the loop has stored the records \<open>rs\<close> under the draws from \<open>i\<close> on.\<close>

fun fill :: "(nat \<Rightarrow> string) \<Rightarrow> nat \<Rightarrow> vol_rec list \<Rightarrow> vol_info \<Rightarrow> vol_info" where
  "fill uuid4 i [] vi = vi"
| "fill uuid4 i (r # rs) vi = fill uuid4 (Suc i) rs (dict_set (uuid4 i) r vi)"

text \<open>
  \<open>mapping_at st x\<close>: the value \<open>x\<close> denotes a dict that the store holds, with its
  address and entries. \<open>allocated\<close>: a reference is to an object that exists.
\<close>

definition mapping_at :: "store \<Rightarrow> pyval \<Rightarrow> (nat \<times> (pyval \<times> pyval) list) option" where
  "mapping_at st x =
     (case x of
        PRef a \<Rightarrow>
          if a < top st then (case cells st a of PDict kvs \<Rightarrow> Some (a, kvs) | PList xs \<Rightarrow> None)
          else None
      | _ \<Rightarrow> None)"

definition allocated :: "store \<Rightarrow> pyval \<Rightarrow> bool" where
  "allocated st x = (case x of PRef a \<Rightarrow> a < top st | _ \<Rightarrow> True)"

section \<open>Example inputs\<close>

text \<open>
  The scenario of two volumes: \<^verbatim>\<open>I1001\<close> with title, number and page total,
  \<^verbatim>\<open>I1002\<close> with its number only; and a work whose only volume has no number.
  \<open>example_turtle\<close>, defined after two more documents, reads these documents and
  the empty one, and rejects the rest.
\<close>

definition two_volumes_ttl :: string where
  \<open>two_volumes_ttl =
     ''@prefix bdr: <http://purl.bdrc.io/resource/> . '' @
     ''@prefix bdo: <http://purl.bdrc.io/ontology/core/> . '' @
     ''@prefix rdfs: <http://www.w3.org/2000/01/rdf-schema#> . '' @
     ''bdr:W22083 bdo:instanceHasVolume bdr:I1002 , bdr:I1001 . '' @
     ''bdr:I1001 rdfs:comment "Vol 1" ; bdo:volumeNumber 1 ; bdo:volumePagesTotal 50 . '' @
     ''bdr:I1002 bdo:volumeNumber 2 .''\<close>

definition two_volumes :: graph where
  "two_volumes =
     [(BDR ''W22083'', BDO ''instanceHasVolume'', BDR ''I1002''),
      (BDR ''W22083'', BDO ''instanceHasVolume'', BDR ''I1001''),
      (BDR ''I1001'', RDFS_comment, Literal ''Vol 1'' (PStr ''Vol 1'')),
      (BDR ''I1001'', BDO ''volumeNumber'', Literal ''1'' (PInt 1)),
      (BDR ''I1001'', BDO ''volumePagesTotal'', Literal ''50'' (PInt 50)),
      (BDR ''I1002'', BDO ''volumeNumber'', Literal ''2'' (PInt 2))]"

definition no_number_ttl :: string where
  "no_number_ttl =
     ''@prefix bdr: <http://purl.bdrc.io/resource/> . '' @
     ''@prefix bdo: <http://purl.bdrc.io/ontology/core/> . '' @
     ''bdr:W1 bdo:instanceHasVolume bdr:I1 . bdr:I1 bdo:volumePagesTotal 12 .''"

definition no_number :: graph where
  "no_number =
     [(BDR ''W1'', BDO ''instanceHasVolume'', BDR ''I1''),
      (BDR ''I1'', BDO ''volumePagesTotal'', Literal ''12'' (PInt 12))]"

text \<open>
  A work with two volumes, one whose page total is not a numeral and one without
  page total.
\<close>

definition odd_pages_ttl :: string where
  \<open>odd_pages_ttl =
     ''@prefix bdr: <http://purl.bdrc.io/resource/> . '' @
     ''@prefix bdo: <http://purl.bdrc.io/ontology/core/> . '' @
     ''bdr:W2 bdo:instanceHasVolume bdr:I1 , bdr:I2 . '' @
     ''bdr:I1 bdo:volumeNumber 1 ; bdo:volumePagesTotal "abc" . '' @
     ''bdr:I2 bdo:volumeNumber 2 .''\<close>

definition odd_pages :: graph where
  "odd_pages =
     [(BDR ''W2'', BDO ''instanceHasVolume'', BDR ''I1''),
      (BDR ''W2'', BDO ''instanceHasVolume'', BDR ''I2''),
      (BDR ''I1'', BDO ''volumeNumber'', Literal ''1'' (PInt 1)),
      (BDR ''I1'', BDO ''volumePagesTotal'', Literal ''abc'' (PStr ''abc'')),
      (BDR ''I2'', BDO ''volumeNumber'', Literal ''2'' (PInt 2))]"

text \<open>
  A text that is not Turtle: its last statement has the N3 path \<^verbatim>\<open>bdr:a!bdo:b\<close> as
  subject. rdflib reads Turtle with its N3 parser, which accepts the path and makes
  a blank node for it.
\<close>

definition n3_path_ttl :: string where
  "n3_path_ttl =
     ''@prefix bdr: <http://purl.bdrc.io/resource/> . '' @
     ''@prefix bdo: <http://purl.bdrc.io/ontology/core/> . '' @
     ''bdr:W3 bdo:instanceHasVolume bdr:I1 . bdr:I1 bdo:volumeNumber 1 . '' @
     ''bdr:a!bdo:b bdo:c bdr:d .''"

definition n3_path :: graph where
  "n3_path =
     [(BDR ''W3'', BDO ''instanceHasVolume'', BDR ''I1''),
      (BDR ''I1'', BDO ''volumeNumber'', Literal ''1'' (PInt 1)),
      (BDR ''a'', BDO ''b'', BNode ''b1''),
      (BNode ''b1'', BDO ''c'', BDR ''d'')]"

definition example_turtle :: "string \<Rightarrow> exn + graph" where
  "example_turtle s =
     (if s = [] then Inr []
      else if s = two_volumes_ttl then Inr two_volumes
      else if s = no_number_ttl then Inr no_number
      else if s = odd_pages_ttl then Inr odd_pages
      else if s = n3_path_ttl then Inr n3_path
      else Inl (ParserError ''Bad syntax''))"

text \<open>An instance of \<open>py_int\<close>: the unsigned decimal numerals, as \<^verbatim>\<open>int()\<close> reads them.\<close>

definition digit :: "char \<Rightarrow> int option" where
  "digit c = map_of (zip ''0123456789'' [0, 1, 2, 3, 4, 5, 6, 7, 8, 9]) c"

fun decimal_from :: "int \<Rightarrow> string \<Rightarrow> int option" where
  "decimal_from a [] = Some a"
| "decimal_from a (c # cs) =
     (case digit c of None \<Rightarrow> None | Some d \<Rightarrow> decimal_from (10 * a + d) cs)"

definition decimal :: "string \<Rightarrow> int option" where
  "decimal s = (if s = [] then None else decimal_from 0 s)"

text \<open>Two runs of \<^verbatim>\<open>uuid.uuid4().hex\<close>.\<close>

definition draws_a :: "nat \<Rightarrow> string" where
  "draws_a i =
     (if i = 0 then ''3f2b8c1e9d4a4f6fb0a1c2d3e4f50617''
      else if i = 1 then ''a81d4fae7dec41d0a76500a0c91e6bf6''
      else ''0e4f1c7a52b94d08'' @ replicate i CHR ''0'')"

definition draws_b :: "nat \<Rightarrow> string" where
  "draws_b i =
     (if i = 0 then ''c56a4180665a4f2d9f3b1a2b3c4d5e6f''
      else if i = 1 then ''16fd2706c8a94b1e8d7a0f1e2d3c4b5a''
      else ''7d44b0e1f2a34c5d'' @ replicate i CHR ''1'')"

text \<open>
  Metadata documents. \<open>doc_store\<close>: the root dict at address 0, its
  \<^verbatim>\<open>source_metadata\<close> at 1, an earlier \<^verbatim>\<open>volume\<close> mapping at 2 with one record
  at 3. \<open>bare_store\<close>: a root dict without \<^verbatim>\<open>source_metadata\<close>.
\<close>

definition doc_store :: store where
  "doc_store =
     \<lparr>cells = (\<lambda>a. PDict [])
        (0 := PDict [(PStr ''id'', PStr ''P000003''), (PStr ''source_metadata'', PRef 1)],
         1 := PDict [(PStr ''id'', PStr ''bdr:W22083''), (PStr ''volume'', PRef 2),
                     (PStr ''title'', PStr ''bka' 'gyur'')],
         2 := PDict [(PStr ''5d9a3a0f7c1e4b2a8f6e0d1c2b3a4958'', PRef 3)],
         3 := PDict [(PStr ''image_group_id'', PStr ''I1001''), (PStr ''title'', PStr []),
                     (PStr ''volume_number'', PInt 1), (PStr ''total_pages'', PInt 48)]),
      top = 4\<rparr>"

definition bare_store :: store where
  "bare_store = \<lparr>cells = (\<lambda>a. PDict [])(0 := PDict [(PStr ''id'', PStr ''P000003'')]), top = 1\<rparr>"

text \<open>Outcomes of \<^verbatim>\<open>requests.get\<close>: a 404 response, a 200 response, no connection.\<close>

definition requests_404 :: "string \<Rightarrow> exn + response" where
  "requests_404 url = Inr \<lparr>status_code = 404, body_text = ''Not Found''\<rparr>"

definition requests_200 :: "string \<Rightarrow> exn + response" where
  "requests_200 url = Inr \<lparr>status_code = 200, body_text = two_volumes_ttl\<rparr>"

definition requests_down :: "string \<Rightarrow> exn + response" where
  "requests_down url = Inl (RequestException ''ConnectionError'')"

section \<open>Lemmas on the dict and the loop\<close>

lemma dict_set_fresh: "k \<notin> fst ` set d \<Longrightarrow> dict_set k v d = d @ [(k, v)]"
  by (induction d) auto

lemma dict_set_others:
  "filter (\<lambda>e. fst e \<noteq> k) (dict_set k v d) = filter (\<lambda>e. fst e \<noteq> k) d"
  by (induction d) auto

lemma map_of_dict_set: "map_of (dict_set k v d) = (map_of d)(k \<mapsto> v)"
  by (induction d) (auto simp: fun_eq_iff)

lemma set_dict_set: "set (dict_set k v d) \<subseteq> insert (k, v) (set d)"
  by (induction d) auto

lemma volume_record_log:
  "volume_record py_int g w vid log =
     (fst (volume_record py_int g w vid []), log @ snd (volume_record py_int g w vid []))"
  by (simp add: volume_record_def Let_def split: option.splits sum.splits prod.splits)

lemma volume_loop_Inr:
  "volume_loop py_int uuid4 g w ids i acc log = (Inr m, log') \<Longrightarrow>
     \<exists>rs. list_all2 (\<lambda>vid r. fst (volume_record py_int g w vid []) = Inr r) ids rs
         \<and> m = fill uuid4 i rs acc
         \<and> log' = log @ concat (map (\<lambda>vid. snd (volume_record py_int g w vid [])) ids)"
proof (induction ids arbitrary: i acc log)
  case Nil
  then show ?case by simp
next
  case (Cons vid ids)
  obtain res l1 where vr: "volume_record py_int g w vid log = (res, l1)"
    by (cases "volume_record py_int g w vid log")
  with Cons.prems obtain r where res: "res = Inr r"
    by (cases res) auto
  from vr res have l1: "l1 = log @ snd (volume_record py_int g w vid [])"
    and r: "fst (volume_record py_int g w vid []) = Inr r"
    using volume_record_log[of py_int g w vid log] by auto
  from Cons.prems vr res
  have "volume_loop py_int uuid4 g w ids (Suc i) (dict_set (uuid4 i) r acc) l1 = (Inr m, log')"
    by simp
  from Cons.IH[OF this] obtain rs where
    rs: "list_all2 (\<lambda>vid r. fst (volume_record py_int g w vid []) = Inr r) ids rs"
    and m: "m = fill uuid4 (Suc i) rs (dict_set (uuid4 i) r acc)"
    and l: "log' = l1 @ concat (map (\<lambda>vid. snd (volume_record py_int g w vid [])) ids)"
    by blast
  show ?case
    by (rule exI[of _ "r # rs"]) (use rs m l l1 r in simp)
qed

lemma volume_loop_returns:
  "list_all2 (\<lambda>vid r. fst (volume_record py_int g w vid []) = Inr r) ids rs \<Longrightarrow>
   volume_loop py_int uuid4 g w ids i acc log =
     (Inr (fill uuid4 i rs acc),
      log @ concat (map (\<lambda>vid. snd (volume_record py_int g w vid [])) ids))"
proof (induction ids rs arbitrary: i acc log rule: list_all2_induct)
  case Nil
  then show ?case by simp
next
  case (Cons vid ids r rs)
  have "volume_record py_int g w vid log = (Inr r, log @ snd (volume_record py_int g w vid []))"
    using volume_record_log[of py_int g w vid log] Cons.hyps(1) by simp
  then show ?case
    using Cons.IH by simp
qed

lemma volume_loop_raises:
  "vid \<in> set ids \<Longrightarrow> fst (volume_record py_int g w vid []) = Inl e \<Longrightarrow>
   \<exists>e'. fst (volume_loop py_int uuid4 g w ids i acc log) = Inl e'"
proof (induction ids arbitrary: i acc log)
  case Nil
  then show ?case by simp
next
  case (Cons x ids)
  obtain res l1 where vr: "volume_record py_int g w x log = (res, l1)"
    by (cases "volume_record py_int g w x log")
  show ?case
  proof (cases res)
    case (Inl a)
    with vr show ?thesis by simp
  next
    case (Inr r)
    with vr volume_record_log[of py_int g w x log]
    have "fst (volume_record py_int g w x []) = Inr r" by simp
    with Cons.prems have "vid \<in> set ids" by auto
    from Cons.IH[OF this Cons.prems(2)] vr Inr show ?thesis by simp
  qed
qed

lemma fill_fresh:
  "distinct (map uuid4 [i..<i + length rs]) \<Longrightarrow>
   set (map uuid4 [i..<i + length rs]) \<inter> fst ` set acc = {} \<Longrightarrow>
   fill uuid4 i rs acc = acc @ zip (map uuid4 [i..<i + length rs]) rs"
proof (induction rs arbitrary: i acc)
  case Nil
  then show ?case by simp
next
  case (Cons r rs)
  have up: "[i..<i + length (r # rs)] = i # [Suc i..<Suc i + length rs]"
    by (simp add: upt_rec)
  have p1: "distinct (uuid4 i # map uuid4 [Suc i..<Suc i + length rs])"
    using Cons.prems(1) unfolding up by simp
  have p2: "set (uuid4 i # map uuid4 [Suc i..<Suc i + length rs]) \<inter> fst ` set acc = {}"
    using Cons.prems(2) unfolding up by simp
  from p1 have d: "distinct (map uuid4 [Suc i..<Suc i + length rs])"
    and notin: "uuid4 i \<notin> set (map uuid4 [Suc i..<Suc i + length rs])"
    by simp_all
  from p2 have fresh: "uuid4 i \<notin> fst ` set acc"
    and disj: "set (map uuid4 [Suc i..<Suc i + length rs]) \<inter> fst ` set acc = {}"
    by auto
  have ds: "dict_set (uuid4 i) r acc = acc @ [(uuid4 i, r)]"
    using fresh by (rule dict_set_fresh)
  have "set (map uuid4 [Suc i..<Suc i + length rs]) \<inter> fst ` set (acc @ [(uuid4 i, r)]) = {}"
    using disj notin by auto
  from Cons.IH[OF d this] have
    "fill uuid4 (Suc i) rs (acc @ [(uuid4 i, r)]) =
       (acc @ [(uuid4 i, r)]) @ zip (map uuid4 [Suc i..<Suc i + length rs]) rs" .
  then show ?case unfolding up by (simp add: ds)
qed

lemma set_fill: "set (fill uuid4 i rs acc) \<subseteq> set acc \<union> (UNIV \<times> set rs)"
proof (induction rs arbitrary: i acc)
  case Nil
  then show ?case by simp
next
  case (Cons r rs)
  show ?case using Cons.IH[of "Suc i" "dict_set (uuid4 i) r acc"] set_dict_set[of "uuid4 i" r acc]
    by auto
qed

lemma volume_record_warning:
  "snd (volume_record py_int g w vid []) = (if has_title g vid then [] else [title_warning w vid])"
  by (simp add: volume_record_def has_title_def Let_def
      split: option.splits sum.splits prod.splits)

lemma warnings_of_loop:
  "concat (map (\<lambda>vid. snd (volume_record py_int g w vid [])) ids) =
     map (title_warning w) (filter (\<lambda>vid. \<not> has_title g vid) ids)"
  by (induction ids) (simp_all add: volume_record_warning)

lemma int_of_Inl: "(\<exists>e. int_of py_int x = Inl e) = not_coercible py_int x"
  by (auto simp: int_of_def not_coercible_def split: option.splits)

lemma volume_ok_returns:
  "volume_ok py_int g vid = (\<exists>r. fst (volume_record py_int g w vid []) = Inr r)"
proof -
  have n: "not_coercible py_int x = (\<forall>i. int_of py_int x \<noteq> Inr i)" for x
    by (auto simp: int_of_def not_coercible_def split: option.splits)
  show ?thesis
    unfolding volume_ok_def n
    by (cases "int_of py_int (graph_value g (BDR vid) (BDO ''volumeNumber''))")
      (auto simp: volume_record_def Let_def split: option.splits node.splits sum.splits)
qed

lemma volume_record_fields:
  assumes "fst (volume_record py_int g w vid []) = Inr r"
  shows "image_group_id r = vid"
    and "not_coercible py_int (graph_value g (BDR vid) (BDO ''volumePagesTotal''))
           \<Longrightarrow> total_pages r = 0"
proof -
  show "image_group_id r = vid"
    using assms
    by (auto simp: volume_record_def Let_def split: option.splits sum.splits if_splits)
  assume "not_coercible py_int (graph_value g (BDR vid) (BDO ''volumePagesTotal''))"
  then obtain e where "int_of py_int (graph_value g (BDR vid) (BDO ''volumePagesTotal'')) = Inl e"
    using int_of_Inl by blast
  with assms show "total_pages r = 0"
    by (auto simp: volume_record_def Let_def split: option.splits sum.splits if_splits)
qed

lemma volume_record_no_number:
  assumes "not_coercible py_int (graph_value g (BDR vid) (BDO ''volumeNumber''))"
  shows "\<exists>e. fst (volume_record py_int g w vid []) = Inl e"
proof -
  from assms obtain e where "int_of py_int (graph_value g (BDR vid) (BDO ''volumeNumber'')) = Inl e"
    using int_of_Inl by blast
  then show ?thesis
    by (auto simp: volume_record_def Let_def split: option.splits sum.splits)
qed

lemma records_of_ok:
  "\<forall>vid \<in> set ids. volume_ok py_int g vid \<Longrightarrow>
   \<exists>rs. list_all2 (\<lambda>vid r. fst (volume_record py_int g w vid []) = Inr r) ids rs"
proof (induction ids)
  case Nil
  then show ?case by simp
next
  case (Cons vid ids)
  then obtain rs where rs: "list_all2 (\<lambda>vid r. fst (volume_record py_int g w vid []) = Inr r) ids rs"
    by auto
  from Cons.prems obtain r where "fst (volume_record py_int g w vid []) = Inr r"
    using volume_ok_returns[of py_int g vid w] by auto
  with rs have "list_all2 (\<lambda>vid r. fst (volume_record py_int g w vid []) = Inr r) (vid # ids) (r # rs)"
    by simp
  then show ?case by blast
qed

lemma records_ids:
  "list_all2 (\<lambda>vid r. fst (volume_record py_int g w vid []) = Inr r) ids rs \<Longrightarrow>
   map image_group_id rs = ids"
  by (induction ids rs rule: list_all2_induct) (simp_all add: volume_record_fields(1))

lemma fill_empty:
  assumes "distinct (map uuid4 [0..<length rs])"
  shows "fill uuid4 0 rs [] = zip (map uuid4 [0..<length rs]) rs"
  using fill_fresh[of uuid4 0 rs "[]"] assms by simp

lemma extraction_returns:
  assumes "turtle meta_ttl = Inr g"
    and "parse_volume_info turtle py_int uuid4 meta_ttl work_id log = (Inr m, log')"
  shows "\<exists>rs. list_all2 (\<lambda>vid r. fst (volume_record py_int g work_id vid []) = Inr r)
                 (get_vol_img_grp_id_list g work_id) rs
            \<and> m = fill uuid4 0 rs []
            \<and> log' = log @ map (title_warning work_id)
                  (filter (\<lambda>vid. \<not> has_title g vid) (get_vol_img_grp_id_list g work_id))"
proof -
  from assms have
    "volume_loop py_int uuid4 g work_id (get_vol_img_grp_id_list g work_id) 0 [] log = (Inr m, log')"
    by (simp add: parse_volume_info_def)
  from volume_loop_Inr[OF this] show ?thesis
    by (simp add: warnings_of_loop)
qed

section \<open>The extractor\<close>

text \<open>
  C2. When the graph parses and some volume of the work has no volume number, or one
  that \<^verbatim>\<open>int()\<close> rejects, \<^verbatim>\<open>parse_volume_info\<close> raises: the result is an
  exception and no mapping, whatever the other volumes hold.
\<close>

theorem missing_volume_number_propagates:
  assumes "turtle meta_ttl = Inr g"
    and "vid \<in> set (get_vol_img_grp_id_list g work_id)"
    and "not_coercible py_int (graph_value g (BDR vid) (BDO ''volumeNumber''))"
  shows "\<exists>e. fst (parse_volume_info turtle py_int draws meta_ttl work_id log) = Inl e"
proof -
  from assms(3) obtain e where "fst (volume_record py_int g work_id vid []) = Inl e"
    using volume_record_no_number by blast
  from volume_loop_raises[OF assms(2) this] show ?thesis
    using assms(1) by (simp add: parse_volume_info_def)
qed

lemma ids_no_number: "get_vol_img_grp_id_list no_number ''W1'' = [''I1'']"
  by (simp add: get_vol_img_grp_id_list_def no_number_def objects_def BDR_def BDO_def
      get_img_grp_id_def)

lemma ids_two_volumes: "get_vol_img_grp_id_list two_volumes ''W22083'' = [''I1001'', ''I1002'']"
  by (simp add: get_vol_img_grp_id_list_def two_volumes_def objects_def BDR_def BDO_def
      get_img_grp_id_def RDFS_comment_def)

lemma turtle_no_number: "example_turtle no_number_ttl = Inr no_number"
  by (simp add: example_turtle_def two_volumes_ttl_def no_number_ttl_def)

lemma turtle_two_volumes: "example_turtle two_volumes_ttl = Inr two_volumes"
  by (simp add: example_turtle_def two_volumes_ttl_def)

theorem missing_volume_number_propagates_witness:
  "example_turtle no_number_ttl = Inr no_number
   \<and> ''I1'' \<in> set (get_vol_img_grp_id_list no_number ''W1'')
   \<and> not_coercible decimal (graph_value no_number (BDR ''I1'') (BDO ''volumeNumber''))
   \<and> (\<exists>e. fst (parse_volume_info example_turtle decimal draws_a no_number_ttl ''W1'' []) = Inl e)"
proof -
  have h2: "''I1'' \<in> set (get_vol_img_grp_id_list no_number ''W1'')"
    by (simp add: ids_no_number)
  have h3: "not_coercible decimal (graph_value no_number (BDR ''I1'') (BDO ''volumeNumber''))"
    by (simp add: not_coercible_def graph_value_def objects_def no_number_def BDR_def BDO_def)
  show ?thesis
    using turtle_no_number h2 h3
      missing_volume_number_propagates[where turtle = example_turtle and py_int = decimal
        and draws = draws_a and meta_ttl = no_number_ttl and work_id = "''W1''"
        and vid = "''I1''" and g = no_number and log = "[]"]
    by simp
qed

text \<open>
  C1, as the code has it. When the graph parses, every volume of the work passes the
  loop body (\<open>volume_ok\<close>: its volume number is an integer and its comment, if
  true, is a literal) and the keys drawn are pairwise different, the extractor
  returns a mapping with one record for each of the \<open>N\<close> "has volume" triples of
  the work, under \<open>N\<close> different keys.
\<close>

theorem one_record_per_volume:
  assumes "turtle meta_ttl = Inr g"
    and "\<forall>vid \<in> set (get_vol_img_grp_id_list g work_id). volume_ok py_int g vid"
    and "distinct (map draws [0..<length (objects g (BDR work_id) (BDO ''instanceHasVolume''))])"
  shows "\<exists>m log'. parse_volume_info turtle py_int draws meta_ttl work_id log = (Inr m, log')
           \<and> length m = length (objects g (BDR work_id) (BDO ''instanceHasVolume''))
           \<and> distinct (map fst m)"
proof -
  let ?ids = "get_vol_img_grp_id_list g work_id"
  have n: "length ?ids = length (objects g (BDR work_id) (BDO ''instanceHasVolume''))"
    by (simp add: get_vol_img_grp_id_list_def)
  from records_of_ok[OF assms(2)] obtain rs where
    rs: "list_all2 (\<lambda>vid r. fst (volume_record py_int g work_id vid []) = Inr r) ?ids rs"
    by blast
  then have len: "length rs = length ?ids"
    by (simp add: list_all2_lengthD)
  with assms(3) n have d: "distinct (map draws [0..<length rs])"
    by simp
  have m: "fill draws 0 rs [] = zip (map draws [0..<length rs]) rs"
    using d by (rule fill_empty)
  have "parse_volume_info turtle py_int draws meta_ttl work_id log =
          (Inr (fill draws 0 rs []),
           log @ concat (map (\<lambda>vid. snd (volume_record py_int g work_id vid [])) ?ids))"
    using assms(1) volume_loop_returns[OF rs, of draws 0 "[]" log]
    by (simp add: parse_volume_info_def)
  moreover have "length (fill draws 0 rs []) = length (objects g (BDR work_id) (BDO ''instanceHasVolume''))"
    using m len n by simp
  moreover have "distinct (map fst (fill draws 0 rs []))"
    using m d by simp
  ultimately show ?thesis by blast
qed

lemma distinct_draws_a: "distinct (map draws_a [0..<2])"
  by (simp add: draws_a_def upt_rec)

lemma volumes_two: "length (objects two_volumes (BDR ''W22083'') (BDO ''instanceHasVolume'')) = 2"
  by (simp add: objects_def two_volumes_def BDR_def BDO_def RDFS_comment_def)

lemma volume_ok_two:
  "\<forall>vid \<in> set (get_vol_img_grp_id_list two_volumes ''W22083''). volume_ok decimal two_volumes vid"
  unfolding ids_two_volumes
  by (simp add: volume_ok_def not_coercible_def graph_value_def objects_def
      two_volumes_def BDR_def BDO_def RDFS_comment_def decimal_def digit_def)

theorem one_record_per_volume_witness:
  "example_turtle two_volumes_ttl = Inr two_volumes
   \<and> get_vol_img_grp_id_list two_volumes ''W22083'' = [''I1001'', ''I1002'']
   \<and> volume_ok decimal two_volumes ''I1001'' \<and> volume_ok decimal two_volumes ''I1002''
   \<and> distinct (map draws_a [0..<length (objects two_volumes (BDR ''W22083'') (BDO ''instanceHasVolume''))])
   \<and> length (projr (fst (parse_volume_info example_turtle decimal draws_a two_volumes_ttl
                             ''W22083'' []))) = 2
   \<and> distinct (map fst (projr (fst (parse_volume_info example_turtle decimal draws_a
                                       two_volumes_ttl ''W22083'' []))))"
proof -
  have h3: "distinct (map draws_a
              [0..<length (objects two_volumes (BDR ''W22083'') (BDO ''instanceHasVolume''))])"
    using distinct_draws_a by (simp only: volumes_two)
  from one_record_per_volume[where turtle = example_turtle and py_int = decimal
        and draws = draws_a and meta_ttl = two_volumes_ttl and work_id = "''W22083''"
        and g = two_volumes and log = "[]", OF turtle_two_volumes volume_ok_two h3]
  obtain m log' where
    "parse_volume_info example_turtle decimal draws_a two_volumes_ttl ''W22083'' [] = (Inr m, log')"
    and "length m = 2" and "distinct (map fst m)"
    unfolding volumes_two by blast
  then show ?thesis
    using turtle_two_volumes ids_two_volumes volume_ok_two h3 by simp
qed

text \<open>
  The claim as the specification words it fails: a work with one "has volume"
  triple whose volume has no volume number gets no mapping but a TypeError.
\<close>

theorem one_record_per_volume_counterexample:
  "example_turtle no_number_ttl = Inr no_number
   \<and> length (objects no_number (BDR ''W1'') (BDO ''instanceHasVolume'')) = 1
   \<and> get_vol_img_grp_id_list no_number ''W1'' = [''I1'']
   \<and> fst (parse_volume_info example_turtle decimal draws_a no_number_ttl ''W1'' []) = Inl TypeError"
proof -
  have run: "parse_volume_info example_turtle decimal draws_a no_number_ttl ''W1'' [] =
      volume_loop decimal draws_a no_number ''W1'' [''I1''] 0 [] []"
    by (simp only: parse_volume_info_def turtle_no_number sum.case ids_no_number)
  have "volume_record decimal no_number ''W1'' ''I1'' [] =
      (Inl TypeError, [title_warning ''W1'' ''I1''])"
    by (simp add: volume_record_def graph_value_def objects_def no_number_def BDR_def BDO_def
        RDFS_comment_def int_of_def)
  then have "fst (parse_volume_info example_turtle decimal draws_a no_number_ttl ''W1'' [])
      = Inl TypeError"
    by (simp add: run)
  moreover have "length (objects no_number (BDR ''W1'') (BDO ''instanceHasVolume'')) = 1"
    by (simp add: objects_def no_number_def BDR_def BDO_def)
  ultimately show ?thesis
    using turtle_no_number ids_no_number by simp
qed

text \<open>
  C5. The identifiers that drive the loop are sorted ascending as strings, and when
  the extractor returns a mapping (the keys drawn being pairwise different), the
  \<^verbatim>\<open>image_group_id\<close> fields of its records, read in insertion order, are that
  sorted list.
\<close>

theorem records_in_sorted_order:
  assumes "turtle meta_ttl = Inr g"
    and "parse_volume_info turtle py_int draws meta_ttl work_id log = (Inr m, log')"
    and "distinct (map draws [0..<length (get_vol_img_grp_id_list g work_id)])"
  shows "sorted (get_vol_img_grp_id_list g work_id)
         \<and> map (\<lambda>e. image_group_id (snd e)) m = get_vol_img_grp_id_list g work_id"
proof -
  let ?ids = "get_vol_img_grp_id_list g work_id"
  from extraction_returns[OF assms(1,2)] obtain rs where
    rs: "list_all2 (\<lambda>vid r. fst (volume_record py_int g work_id vid []) = Inr r) ?ids rs"
    and m: "m = fill draws 0 rs []"
    by blast
  from rs have len: "length rs = length ?ids"
    by (simp add: list_all2_lengthD)
  with assms(3) have "distinct (map draws [0..<length rs])"
    by simp
  then have "m = zip (map draws [0..<length rs]) rs"
    using m by (simp add: fill_empty)
  then have "map snd m = rs"
    by simp
  moreover have "map (\<lambda>e. image_group_id (snd e)) m = map image_group_id (map snd m)"
    by simp
  ultimately have "map (\<lambda>e. image_group_id (snd e)) m = map image_group_id rs"
    by simp
  also have "\<dots> = ?ids"
    using rs by (rule records_ids)
  finally show ?thesis
    by (simp add: get_vol_img_grp_id_list_def)
qed

lemma record_I1001:
  "volume_record decimal two_volumes ''W22083'' ''I1001'' [] =
     (Inr \<lparr>image_group_id = ''I1001'', title = PStr ''Vol 1'',
            volume_number = 1, total_pages = 50\<rparr>, [])"
  by (simp add: volume_record_def graph_value_def objects_def two_volumes_def BDR_def BDO_def
      RDFS_comment_def int_of_def decimal_def digit_def)

lemma record_I1002:
  "volume_record decimal two_volumes ''W22083'' ''I1002'' [] =
     (Inr \<lparr>image_group_id = ''I1002'', title = PStr [],
            volume_number = 2, total_pages = 0\<rparr>, [title_warning ''W22083'' ''I1002''])"
  by (simp add: volume_record_def graph_value_def objects_def two_volumes_def BDR_def BDO_def
      RDFS_comment_def int_of_def decimal_def digit_def)

lemma run_two_volumes:
  "parse_volume_info example_turtle decimal draws_a two_volumes_ttl ''W22083'' [] =
     (Inr [(draws_a 0, \<lparr>image_group_id = ''I1001'', title = PStr ''Vol 1'',
                          volume_number = 1, total_pages = 50\<rparr>),
           (draws_a 1, \<lparr>image_group_id = ''I1002'', title = PStr [],
                          volume_number = 2, total_pages = 0\<rparr>)],
      [title_warning ''W22083'' ''I1002''])"
proof -
  have k: "draws_a (Suc 0) \<noteq> draws_a 0"
    by (simp add: draws_a_def)
  show ?thesis
    using k by (simp add: parse_volume_info_def turtle_two_volumes ids_two_volumes record_I1001 record_I1002)
qed

theorem records_in_sorted_order_witness:
  "example_turtle two_volumes_ttl = Inr two_volumes
   \<and> distinct (map draws_a [0..<length (get_vol_img_grp_id_list two_volumes ''W22083'')])
   \<and> sorted (get_vol_img_grp_id_list two_volumes ''W22083'')
   \<and> map (\<lambda>e. image_group_id (snd e))
        (projr (fst (parse_volume_info example_turtle decimal draws_a two_volumes_ttl ''W22083'' [])))
      = [''I1001'', ''I1002'']"
proof -
  have h3: "distinct (map draws_a [0..<length (get_vol_img_grp_id_list two_volumes ''W22083'')])"
    by (simp add: ids_two_volumes draws_a_def)
  show ?thesis
    using turtle_two_volumes h3
      records_in_sorted_order[where turtle = example_turtle and py_int = decimal
        and draws = draws_a and meta_ttl = two_volumes_ttl and work_id = "''W22083''"
        and g = two_volumes and log = "[]", OF _ run_two_volumes]
    by (simp add: run_two_volumes ids_two_volumes draws_a_def)
qed

text \<open>
  C6. The page total cannot make the extraction fail. When the graph parses and
  every volume of the work passes the title and the volume number
  (\<open>volume_ok\<close>, which says nothing of the page total), the extractor returns a
  mapping, whatever the page totals are. Every record in it whose volume has no
  page-total relation, or one that \<^verbatim>\<open>int()\<close> rejects, has \<^verbatim>\<open>total_pages\<close> 0. The
  log grows by the title warnings only, one for each volume without a proper
  title, so nothing is logged for the pages. With pairwise different keys every
  volume has its record.
\<close>

theorem total_pages_default:
  assumes "turtle meta_ttl = Inr g"
    and "\<forall>vid \<in> set (get_vol_img_grp_id_list g work_id). volume_ok py_int g vid"
  shows "\<exists>m. parse_volume_info turtle py_int draws meta_ttl work_id log =
               (Inr m, log @ map (title_warning work_id)
                  (filter (\<lambda>vid. \<not> has_title g vid) (get_vol_img_grp_id_list g work_id)))
           \<and> (\<forall>e \<in> set m.
                 image_group_id (snd e) \<in> set (get_vol_img_grp_id_list g work_id)
                 \<and> (not_coercible py_int
                        (graph_value g (BDR (image_group_id (snd e))) (BDO ''volumePagesTotal''))
                      \<longrightarrow> total_pages (snd e) = 0))
           \<and> (distinct (map draws [0..<length (get_vol_img_grp_id_list g work_id)])
                 \<longrightarrow> map (\<lambda>e. image_group_id (snd e)) m = get_vol_img_grp_id_list g work_id)"
proof -
  let ?ids = "get_vol_img_grp_id_list g work_id"
  from records_of_ok[OF assms(2)] obtain rs where
    rs: "list_all2 (\<lambda>vid r. fst (volume_record py_int g work_id vid []) = Inr r) ?ids rs"
    by blast
  then have len: "length rs = length ?ids"
    by (simp add: list_all2_lengthD)
  let ?m = "fill draws 0 rs []"
  have run: "parse_volume_info turtle py_int draws meta_ttl work_id log =
      (Inr ?m, log @ map (title_warning work_id) (filter (\<lambda>vid. \<not> has_title g vid) ?ids))"
    using assms(1) volume_loop_returns[OF rs, of draws 0 "[]" log]
    by (simp add: parse_volume_info_def warnings_of_loop)
  have each: "image_group_id (snd e) \<in> set ?ids
      \<and> (not_coercible py_int
             (graph_value g (BDR (image_group_id (snd e))) (BDO ''volumePagesTotal''))
           \<longrightarrow> total_pages (snd e) = 0)" if e: "e \<in> set ?m" for e
  proof -
    from e have "snd e \<in> set rs"
      using set_fill[of draws 0 rs "[]"] by auto
    then obtain j where j: "j < length rs" "rs ! j = snd e"
      by (auto simp: in_set_conv_nth)
    with rs have vr: "fst (volume_record py_int g work_id (?ids ! j) []) = Inr (snd e)"
      and jl: "j < length ?ids"
      by (auto simp: list_all2_conv_all_nth)
    from volume_record_fields(1)[OF vr] have vid: "image_group_id (snd e) = ?ids ! j" .
    then have "image_group_id (snd e) \<in> set ?ids"
      using jl by simp
    moreover have "total_pages (snd e) = 0"
      if "not_coercible py_int
            (graph_value g (BDR (image_group_id (snd e))) (BDO ''volumePagesTotal''))"
      using that vid volume_record_fields(2)[OF vr] by simp
    ultimately show ?thesis
      by blast
  qed
  have order: "map (\<lambda>e. image_group_id (snd e)) ?m = ?ids"
    if d: "distinct (map draws [0..<length ?ids])"
  proof -
    from d len have "?m = zip (map draws [0..<length rs]) rs"
      by (simp add: fill_empty)
    then have "map snd ?m = rs"
      by simp
    moreover have "map (\<lambda>e. image_group_id (snd e)) ?m = map image_group_id (map snd ?m)"
      by simp
    ultimately have "map (\<lambda>e. image_group_id (snd e)) ?m = map image_group_id rs"
      by simp
    then show ?thesis
      using records_ids[OF rs] by simp
  qed
  from run each order show ?thesis
    by blast
qed

lemma turtle_odd_pages: "example_turtle odd_pages_ttl = Inr odd_pages"
  by (simp add: example_turtle_def two_volumes_ttl_def no_number_ttl_def odd_pages_ttl_def)

lemma ids_odd_pages: "get_vol_img_grp_id_list odd_pages ''W2'' = [''I1'', ''I2'']"
  by (simp add: get_vol_img_grp_id_list_def odd_pages_def objects_def BDR_def BDO_def
      get_img_grp_id_def)

lemma pages_I1:
  "graph_value odd_pages (BDR ''I1'') (BDO ''volumePagesTotal'')
     = Some (Literal ''abc'' (PStr ''abc''))"
  by (simp add: graph_value_def objects_def odd_pages_def BDR_def BDO_def)

lemma pages_I2: "graph_value odd_pages (BDR ''I2'') (BDO ''volumePagesTotal'') = None"
  by (simp add: graph_value_def objects_def odd_pages_def BDR_def BDO_def)

lemma volume_ok_odd_pages:
  "volume_ok decimal odd_pages ''I1''" "volume_ok decimal odd_pages ''I2''"
  by (simp_all add: volume_ok_def not_coercible_def graph_value_def objects_def
      odd_pages_def BDR_def BDO_def RDFS_comment_def decimal_def digit_def)

theorem total_pages_default_witness:
  "example_turtle odd_pages_ttl = Inr odd_pages
   \<and> get_vol_img_grp_id_list odd_pages ''W2'' = [''I1'', ''I2'']
   \<and> volume_ok decimal odd_pages ''I1'' \<and> volume_ok decimal odd_pages ''I2''
   \<and> distinct (map draws_a [0..<length (get_vol_img_grp_id_list odd_pages ''W2'')])
   \<and> graph_value odd_pages (BDR ''I1'') (BDO ''volumePagesTotal'')
       = Some (Literal ''abc'' (PStr ''abc''))
   \<and> decimal ''abc'' = None
   \<and> graph_value odd_pages (BDR ''I2'') (BDO ''volumePagesTotal'') = None
   \<and> (\<exists>m. parse_volume_info example_turtle decimal draws_a odd_pages_ttl ''W2'' [] =
               (Inr m, [title_warning ''W2'' ''I1'', title_warning ''W2'' ''I2''])
         \<and> map (\<lambda>e. image_group_id (snd e)) m = [''I1'', ''I2'']
         \<and> map (\<lambda>e. total_pages (snd e)) m = [0, 0])"
proof -
  have ok: "\<forall>vid \<in> set (get_vol_img_grp_id_list odd_pages ''W2''). volume_ok decimal odd_pages vid"
    using volume_ok_odd_pages by (simp add: ids_odd_pages)
  have d: "distinct (map draws_a [0..<length (get_vol_img_grp_id_list odd_pages ''W2'')])"
    by (simp add: ids_odd_pages draws_a_def)
  have abc: "decimal ''abc'' = None"
    by (simp add: decimal_def digit_def)
  have nt: "\<not> has_title odd_pages ''I1''" "\<not> has_title odd_pages ''I2''"
    by (simp_all add: has_title_def graph_value_def objects_def odd_pages_def BDR_def BDO_def
        RDFS_comment_def)
  have nc: "not_coercible decimal (graph_value odd_pages (BDR ''I1'') (BDO ''volumePagesTotal''))"
    "not_coercible decimal (graph_value odd_pages (BDR ''I2'') (BDO ''volumePagesTotal''))"
    by (simp_all add: pages_I1 pages_I2 not_coercible_def abc)
  from total_pages_default[where turtle = example_turtle and py_int = decimal
      and draws = draws_a and meta_ttl = odd_pages_ttl and work_id = "''W2''"
      and g = odd_pages and log = "[]", OF turtle_odd_pages ok]
  obtain m where
    run: "parse_volume_info example_turtle decimal draws_a odd_pages_ttl ''W2'' [] =
            (Inr m, [title_warning ''W2'' ''I1'', title_warning ''W2'' ''I2''])"
    and each: "\<forall>e \<in> set m. not_coercible decimal
                 (graph_value odd_pages (BDR (image_group_id (snd e))) (BDO ''volumePagesTotal''))
               \<longrightarrow> total_pages (snd e) = 0"
    and order: "map (\<lambda>e. image_group_id (snd e)) m = [''I1'', ''I2'']"
    using d nt by (auto simp: ids_odd_pages)
  from order obtain e1 e2 where m: "m = [e1, e2]"
    and i: "image_group_id (snd e1) = ''I1''" "image_group_id (snd e2) = ''I2''"
    by (auto simp: map_eq_Cons_conv)
  from each m i nc have "map (\<lambda>e. total_pages (snd e)) m = [0, 0]"
    by simp
  with run order have
    "\<exists>m. parse_volume_info example_turtle decimal draws_a odd_pages_ttl ''W2'' [] =
               (Inr m, [title_warning ''W2'' ''I1'', title_warning ''W2'' ''I2''])
         \<and> map (\<lambda>e. image_group_id (snd e)) m = [''I1'', ''I2'']
         \<and> map (\<lambda>e. total_pages (snd e)) m = [0, 0]"
    by (intro exI[of _ m] conjI)
  with turtle_odd_pages ids_odd_pages volume_ok_odd_pages d pages_I1 abc pages_I2
  show ?thesis
    by (intro conjI)
qed

text \<open>
  C9. Two runs on the same graph text and work identifier, each with its own draws
  of \<^verbatim>\<open>uuid4\<close> (pairwise different within a run and from one run to the other):
  when the first returns a mapping so does the second, with the same log; the
  records are the same, volume by volume, the keys of each run are its draws, and
  no key of one run is a key of the other.
\<close>

theorem rerun_same_records_new_keys:
  assumes "turtle meta_ttl = Inr g"
    and "parse_volume_info turtle py_int draws1 meta_ttl work_id log = (Inr m1, log')"
    and "distinct (map draws1 [0..<length (get_vol_img_grp_id_list g work_id)])"
    and "distinct (map draws2 [0..<length (get_vol_img_grp_id_list g work_id)])"
    and "set (map draws1 [0..<length (get_vol_img_grp_id_list g work_id)])
           \<inter> set (map draws2 [0..<length (get_vol_img_grp_id_list g work_id)]) = {}"
  shows "\<exists>m2. parse_volume_info turtle py_int draws2 meta_ttl work_id log = (Inr m2, log')
           \<and> map snd m2 = map snd m1
           \<and> map fst m1 = map draws1 [0..<length (get_vol_img_grp_id_list g work_id)]
           \<and> map fst m2 = map draws2 [0..<length (get_vol_img_grp_id_list g work_id)]
           \<and> set (map fst m1) \<inter> set (map fst m2) = {}"
proof -
  let ?ids = "get_vol_img_grp_id_list g work_id"
  from extraction_returns[OF assms(1,2)] obtain rs where
    rs: "list_all2 (\<lambda>vid r. fst (volume_record py_int g work_id vid []) = Inr r) ?ids rs"
    and m1: "m1 = fill draws1 0 rs []"
    and l: "log' = log @ map (title_warning work_id) (filter (\<lambda>vid. \<not> has_title g vid) ?ids)"
    by blast
  from rs have len: "length rs = length ?ids"
    by (simp add: list_all2_lengthD)
  have z1: "m1 = zip (map draws1 [0..<length rs]) rs"
    using m1 assms(3) len by (simp add: fill_empty)
  have z2: "fill draws2 0 rs [] = zip (map draws2 [0..<length rs]) rs"
    using assms(4) len by (simp add: fill_empty)
  have run2: "parse_volume_info turtle py_int draws2 meta_ttl work_id log =
      (Inr (fill draws2 0 rs []), log')"
    using assms(1) volume_loop_returns[OF rs, of draws2 0 "[]" log] l
    by (simp add: parse_volume_info_def warnings_of_loop)
  have k1: "map fst m1 = map draws1 [0..<length ?ids]"
    using z1 len by simp
  have k2: "map fst (fill draws2 0 rs []) = map draws2 [0..<length ?ids]"
    using z2 len by simp
  have s: "map snd (fill draws2 0 rs []) = map snd m1"
    using z1 z2 by simp
  have "set (map fst m1) \<inter> set (map fst (fill draws2 0 rs [])) = {}"
    using assms(5) unfolding k1 k2 .
  with run2 s k1 k2 show ?thesis
    by blast
qed

lemma run_two_volumes_again:
  "parse_volume_info example_turtle decimal draws_b two_volumes_ttl ''W22083'' [] =
     (Inr [(draws_b 0, \<lparr>image_group_id = ''I1001'', title = PStr ''Vol 1'',
                          volume_number = 1, total_pages = 50\<rparr>),
           (draws_b 1, \<lparr>image_group_id = ''I1002'', title = PStr [],
                          volume_number = 2, total_pages = 0\<rparr>)],
      [title_warning ''W22083'' ''I1002''])"
proof -
  have k: "draws_b (Suc 0) \<noteq> draws_b 0"
    by (simp add: draws_b_def)
  show ?thesis
    using k by (simp add: parse_volume_info_def turtle_two_volumes ids_two_volumes record_I1001 record_I1002)
qed

theorem rerun_same_records_new_keys_witness:
  "example_turtle two_volumes_ttl = Inr two_volumes
   \<and> distinct (map draws_a [0..<length (get_vol_img_grp_id_list two_volumes ''W22083'')])
   \<and> distinct (map draws_b [0..<length (get_vol_img_grp_id_list two_volumes ''W22083'')])
   \<and> set (map draws_a [0..<length (get_vol_img_grp_id_list two_volumes ''W22083'')])
        \<inter> set (map draws_b [0..<length (get_vol_img_grp_id_list two_volumes ''W22083'')]) = {}
   \<and> map snd (projr (fst (parse_volume_info example_turtle decimal draws_b two_volumes_ttl
                              ''W22083'' [])))
       = map snd (projr (fst (parse_volume_info example_turtle decimal draws_a two_volumes_ttl
                                ''W22083'' [])))
   \<and> map fst (projr (fst (parse_volume_info example_turtle decimal draws_a two_volumes_ttl
                              ''W22083'' [])))
       \<noteq> map fst (projr (fst (parse_volume_info example_turtle decimal draws_b two_volumes_ttl
                                ''W22083'' [])))"
proof -
  have h3: "distinct (map draws_a [0..<length (get_vol_img_grp_id_list two_volumes ''W22083'')])"
    by (simp add: ids_two_volumes draws_a_def)
  have h4: "distinct (map draws_b [0..<length (get_vol_img_grp_id_list two_volumes ''W22083'')])"
    by (simp add: ids_two_volumes draws_b_def)
  have h5: "set (map draws_a [0..<length (get_vol_img_grp_id_list two_volumes ''W22083'')])
        \<inter> set (map draws_b [0..<length (get_vol_img_grp_id_list two_volumes ''W22083'')]) = {}"
    by (simp add: ids_two_volumes draws_a_def draws_b_def upt_rec)
  from rerun_same_records_new_keys[OF turtle_two_volumes run_two_volumes h3 h4 h5]
  have "map snd (projr (fst (parse_volume_info example_turtle decimal draws_b two_volumes_ttl
                              ''W22083'' [])))
       = map snd (projr (fst (parse_volume_info example_turtle decimal draws_a two_volumes_ttl
                                ''W22083'' [])))"
    by (auto simp: run_two_volumes)
  moreover have "map fst (projr (fst (parse_volume_info example_turtle decimal draws_a
                   two_volumes_ttl ''W22083'' [])))
       \<noteq> map fst (projr (fst (parse_volume_info example_turtle decimal draws_b two_volumes_ttl
                                ''W22083'' [])))"
    by (simp add: run_two_volumes run_two_volumes_again draws_a_def draws_b_def)
  ultimately show ?thesis
    using turtle_two_volumes h3 h4 h5 by simp
qed

lemma volume_loop_log:
  "\<exists>ws. snd (volume_loop py_int uuid4 g w ids i acc log) = log @ ws
        \<and> set ws \<subseteq> title_warning w ` set ids"
proof (induction ids arbitrary: i acc log)
  case Nil
  then show ?case by simp
next
  case (Cons vid ids)
  obtain res l1 where vr: "volume_record py_int g w vid log = (res, l1)"
    by (cases "volume_record py_int g w vid log")
  then have l1: "l1 = log @ (if has_title g vid then [] else [title_warning w vid])"
    using volume_record_log[of py_int g w vid log] by (simp add: volume_record_warning)
  show ?case
  proof (cases res)
    case (Inl e)
    with vr l1 show ?thesis by auto
  next
    case (Inr r)
    from Cons.IH[of "Suc i" "dict_set (uuid4 i) r acc" l1] obtain ws where
      "snd (volume_loop py_int uuid4 g w ids (Suc i) (dict_set (uuid4 i) r acc) l1) = l1 @ ws"
      and "set ws \<subseteq> title_warning w ` set ids"
      by blast
    with vr Inr l1 show ?thesis by auto
  qed
qed

lemma title_warning_not_bad_syntax:
  "title_warning w vid \<noteq> w' @ ''.ttl Contains bad syntax''"
proof
  assume "title_warning w vid = w' @ ''.ttl Contains bad syntax''"
  then have "last (title_warning w vid) = last (w' @ ''.ttl Contains bad syntax'')"
    by simp
  then show False
    by (simp add: title_warning_def)
qed

text \<open>
  C7, as the code has it. What decides is the parser, not the grammar: when
  \<^verbatim>\<open>Graph.parse\<close> raises on the graph text, \<^verbatim>\<open>parse_volume_info\<close> raises nothing,
  returns the empty mapping and logs one warning, which starts with the work
  identifier; when the parser accepts the text, that warning is not logged.
\<close>

theorem bad_syntax_when_parser_raises:
  "(\<forall>e. turtle meta_ttl = Inl e \<longrightarrow>
       parse_volume_info turtle py_int draws meta_ttl work_id log =
         (Inr [], log @ [work_id @ ''.ttl Contains bad syntax'']))
   \<and> (\<forall>g. turtle meta_ttl = Inr g \<longrightarrow>
       (\<exists>ws. snd (parse_volume_info turtle py_int draws meta_ttl work_id log) = log @ ws
             \<and> work_id @ ''.ttl Contains bad syntax'' \<notin> set ws))"
proof (intro conjI allI impI)
  fix e
  assume "turtle meta_ttl = Inl e"
  then show "parse_volume_info turtle py_int draws meta_ttl work_id log =
      (Inr [], log @ [work_id @ ''.ttl Contains bad syntax''])"
    by (simp add: parse_volume_info_def)
next
  fix g
  assume g: "turtle meta_ttl = Inr g"
  obtain ws where
    ws: "snd (volume_loop py_int draws g work_id (get_vol_img_grp_id_list g work_id) 0 [] log)
          = log @ ws"
    and sub: "set ws \<subseteq> title_warning work_id ` set (get_vol_img_grp_id_list g work_id)"
    using volume_loop_log[of py_int draws g work_id "get_vol_img_grp_id_list g work_id" 0 "[]" log]
    by blast
  have "work_id @ ''.ttl Contains bad syntax'' \<notin> set ws"
    using sub title_warning_not_bad_syntax[of work_id _ work_id] by force
  with ws g show "\<exists>ws. snd (parse_volume_info turtle py_int draws meta_ttl work_id log) = log @ ws
      \<and> work_id @ ''.ttl Contains bad syntax'' \<notin> set ws"
    by (auto simp: parse_volume_info_def)
qed

theorem bad_syntax_when_parser_raises_witness:
  "example_turtle ''bdr:W22083 bdo:instanceHasVolume'' = Inl (ParserError ''Bad syntax'')
   \<and> parse_volume_info example_turtle decimal draws_a ''bdr:W22083 bdo:instanceHasVolume''
        ''W22083'' [] = (Inr [], [''W22083.ttl Contains bad syntax''])
   \<and> example_turtle two_volumes_ttl = Inr two_volumes
   \<and> ''W22083.ttl Contains bad syntax''
        \<notin> set (snd (parse_volume_info example_turtle decimal draws_a two_volumes_ttl ''W22083'' []))"
proof -
  have h: "example_turtle ''bdr:W22083 bdo:instanceHasVolume'' = Inl (ParserError ''Bad syntax'')"
    by (simp add: example_turtle_def two_volumes_ttl_def no_number_ttl_def odd_pages_ttl_def
        n3_path_ttl_def)
  have a: "parse_volume_info example_turtle decimal draws_a ''bdr:W22083 bdo:instanceHasVolume''
        ''W22083'' [] = (Inr [], [''W22083.ttl Contains bad syntax''])"
    using h bad_syntax_when_parser_raises[where turtle = example_turtle and py_int = decimal
        and draws = draws_a and meta_ttl = "''bdr:W22083 bdo:instanceHasVolume''"
        and work_id = "''W22083''" and log = "[]"]
    by simp
  have b: "''W22083.ttl Contains bad syntax''
        \<notin> set (snd (parse_volume_info example_turtle decimal draws_a two_volumes_ttl ''W22083'' []))"
    using turtle_two_volumes bad_syntax_when_parser_raises[where turtle = example_turtle
        and py_int = decimal and draws = draws_a and meta_ttl = two_volumes_ttl
        and work_id = "''W22083''" and log = "[]"]
    by auto
  from h a b turtle_two_volumes show ?thesis
    by simp
qed

text \<open>
  The claim as the specification words it fails on a text outside the Turtle grammar
  that the parser accepts: the N3 path is read, the extractor returns the record of
  the volume and logs no warning about the syntax.
\<close>

theorem bad_syntax_counterexample:
  "example_turtle n3_path_ttl = Inr n3_path
   \<and> parse_volume_info example_turtle decimal draws_a n3_path_ttl ''W3'' [] =
       (Inr [(draws_a 0, \<lparr>image_group_id = ''I1'', title = PStr [],
                            volume_number = 1, total_pages = 0\<rparr>)],
        [title_warning ''W3'' ''I1''])"
proof -
  have t: "example_turtle n3_path_ttl = Inr n3_path"
    by (simp add: example_turtle_def two_volumes_ttl_def no_number_ttl_def odd_pages_ttl_def
        n3_path_ttl_def)
  have ids: "get_vol_img_grp_id_list n3_path ''W3'' = [''I1'']"
    by (simp add: get_vol_img_grp_id_list_def n3_path_def objects_def BDR_def BDO_def
        get_img_grp_id_def)
  have run: "parse_volume_info example_turtle decimal draws_a n3_path_ttl ''W3'' [] =
      volume_loop decimal draws_a n3_path ''W3'' [''I1''] 0 [] []"
    by (simp only: parse_volume_info_def t sum.case ids)
  have "volume_record decimal n3_path ''W3'' ''I1'' [] =
      (Inr \<lparr>image_group_id = ''I1'', title = PStr [], volume_number = 1, total_pages = 0\<rparr>,
       [title_warning ''W3'' ''I1''])"
    by (simp add: volume_record_def graph_value_def objects_def n3_path_def BDR_def BDO_def
        RDFS_comment_def int_of_def decimal_def digit_def)
  then show ?thesis
    using t by (simp add: run)
qed

section \<open>The merge\<close>

lemma alloc_frame:
  assumes "alloc st obj = (x, st')"
  shows "x = PRef (top st)" and "top st' = Suc (top st)" and "cells st' (top st) = obj"
    and "\<And>b. b \<noteq> top st \<Longrightarrow> cells st' b = cells st b"
  using assms by (auto simp: alloc_def)

lemma new_records_frame:
  "new_records st vi = (items, st') \<Longrightarrow>
     top st \<le> top st' \<and> (\<forall>b<top st. cells st' b = cells st b)"
proof (induction vi arbitrary: st items st')
  case Nil
  then show ?case by simp
next
  case (Cons e es)
  obtain a st1 where a: "alloc st (PDict (record_items (snd e))) = (a, st1)"
    by (cases "alloc st (PDict (record_items (snd e)))")
  obtain items2 st2 where r: "new_records st1 es = (items2, st2)"
    by (cases "new_records st1 es")
  from Cons.prems a r have st': "st' = st2"
    by simp
  from Cons.IH[OF r] have ih: "top st1 \<le> top st2" "\<forall>b<top st1. cells st2 b = cells st1 b"
    by simp_all
  from alloc_frame(2,4)[OF a] ih st' show ?case
    by auto
qed

lemma new_vol_info_frame:
  assumes "new_vol_info st vi = (x, st')"
  shows "\<exists>v items. x = PRef v \<and> top st \<le> v \<and> cells st' v = PDict items
           \<and> (\<forall>b<top st. cells st' b = cells st b)
           \<and> (\<forall>b. b \<noteq> v \<longrightarrow> b < top st \<longrightarrow> cells st' b = cells st b)"
proof -
  obtain items st1 where r: "new_records st vi = (items, st1)"
    by (cases "new_records st vi")
  with assms have a: "alloc st1 (PDict items) = (x, st')"
    by (simp add: new_vol_info_def)
  from new_records_frame[OF r] have f: "top st \<le> top st1" "\<forall>b<top st. cells st1 b = cells st b"
    by simp_all
  from alloc_frame[OF a] f show ?thesis
    by auto
qed

lemma new_vol_info_empty:
  "new_vol_info st [] =
     (PRef (top st), st\<lparr>cells := (cells st)(top st := PDict []), top := Suc (top st)\<rparr>)"
  by (simp add: new_vol_info_def alloc_def)

lemma mapping_atD:
  "mapping_at st x = Some (a, kvs) \<Longrightarrow> x = PRef a \<and> a < top st \<and> cells st a = PDict kvs"
  by (auto simp: mapping_at_def split: pyval.splits if_splits pyobj.splits)

text \<open>The assignment of the merge on a store where the new mapping sits at \<open>v\<close>.\<close>

lemma merge_succeeds:
  assumes pv: "parse_volume_info turtle py_int draws meta_ttl work_id log = (Inr vi, log1)"
    and root: "mapping_at st old_meta = Some (r, d)"
    and sm: "map_of d (PStr ''source_metadata'') = Some x"
    and smd: "mapping_at st x = Some (a, kvs)"
  shows "\<exists>v st1. new_vol_info st vi = (PRef v, st1) \<and> top st \<le> v
           \<and> (\<forall>b<top st. cells st1 b = cells st b)
           \<and> get_new_meta turtle py_int draws old_meta meta_ttl work_id st log =
               (Inr old_meta,
                st1\<lparr>cells := (cells st1)(a := PDict (dict_set (PStr ''volume'') (PRef v) kvs))\<rparr>,
                log1)"
proof -
  obtain x1 st1 where nv: "new_vol_info st vi = (x1, st1)"
    by (cases "new_vol_info st vi")
  from new_vol_info_frame[OF nv] obtain v where
    v: "x1 = PRef v" "top st \<le> v" and fr: "\<forall>b<top st. cells st1 b = cells st b"
    by blast
  from mapping_atD[OF root] have r: "old_meta = PRef r" "r < top st" "cells st r = PDict d"
    by simp_all
  from mapping_atD[OF smd] have a: "x = PRef a" "a < top st" "cells st a = PDict kvs"
    by simp_all
  have g: "getitem st1 old_meta ''source_metadata'' = Inr (PRef a)"
    using r a(1) sm fr by (simp add: getitem_def)
  have s: "setitem st1 (PRef a) ''volume'' (PRef v) =
      Inr (st1\<lparr>cells := (cells st1)(a := PDict (dict_set (PStr ''volume'') (PRef v) kvs))\<rparr>)"
    using a fr by (simp add: setitem_def)
  have "get_new_meta turtle py_int draws old_meta meta_ttl work_id st log =
      (Inr old_meta,
       st1\<lparr>cells := (cells st1)(a := PDict (dict_set (PStr ''volume'') (PRef v) kvs))\<rparr>, log1)"
    using pv nv v(1) g s by (simp add: get_new_meta_def)
  with nv v fr show ?thesis
    by blast
qed

text \<open>
  C8. When the extraction returns and the document is a dict whose
  \<^verbatim>\<open>source_metadata\<close> is a dict (so that the assignment succeeds), the merge returns
  the object it was given and logs nothing more. One object of the document changes,
  the \<^verbatim>\<open>source_metadata\<close> dict at \<open>a\<close>: its \<^verbatim>\<open>volume\<close> entry now refers to the
  new mapping, and all its other entries keep their values and their order. Every
  other object that existed before is as it was.
\<close>

theorem merge_changes_only_volume:
  assumes "parse_volume_info turtle py_int draws meta_ttl work_id log = (Inr vi, log1)"
    and "mapping_at st old_meta = Some (r, d)"
    and "map_of d (PStr ''source_metadata'') = Some x"
    and "mapping_at st x = Some (a, kvs)"
  shows "\<exists>st' v. get_new_meta turtle py_int draws old_meta meta_ttl work_id st log =
                    (Inr old_meta, st', log1)
           \<and> top st \<le> v
           \<and> cells st' a = PDict (dict_set (PStr ''volume'') (PRef v) kvs)
           \<and> filter (\<lambda>e. fst e \<noteq> PStr ''volume'') (dict_set (PStr ''volume'') (PRef v) kvs)
               = filter (\<lambda>e. fst e \<noteq> PStr ''volume'') kvs
           \<and> (\<forall>b<top st. b \<noteq> a \<longrightarrow> cells st' b = cells st b)"
proof -
  from merge_succeeds[OF assms] obtain v st1 where
    v: "top st \<le> v" and fr: "\<forall>b<top st. cells st1 b = cells st b"
    and run: "get_new_meta turtle py_int draws old_meta meta_ttl work_id st log =
               (Inr old_meta,
                st1\<lparr>cells := (cells st1)(a := PDict (dict_set (PStr ''volume'') (PRef v) kvs))\<rparr>,
                log1)"
    by blast
  let ?st' = "st1\<lparr>cells := (cells st1)(a := PDict (dict_set (PStr ''volume'') (PRef v) kvs))\<rparr>"
  have "cells ?st' a = PDict (dict_set (PStr ''volume'') (PRef v) kvs)"
    by simp
  moreover have "\<forall>b<top st. b \<noteq> a \<longrightarrow> cells ?st' b = cells st b"
    using fr by simp
  ultimately show ?thesis
    using run v dict_set_others[of "PStr ''volume''" "PRef v" kvs] by blast
qed

lemma doc_root:
  "mapping_at doc_store (PRef 0) =
     Some (0, [(PStr ''id'', PStr ''P000003''), (PStr ''source_metadata'', PRef 1)])"
  by (simp add: mapping_at_def doc_store_def)

lemma doc_source_metadata:
  "mapping_at doc_store (PRef 1) =
     Some (1, [(PStr ''id'', PStr ''bdr:W22083''), (PStr ''volume'', PRef 2),
               (PStr ''title'', PStr ''bka' 'gyur'')])"
  by (simp add: mapping_at_def doc_store_def)

theorem merge_changes_only_volume_witness:
  "mapping_at doc_store (PRef 0) =
     Some (0, [(PStr ''id'', PStr ''P000003''), (PStr ''source_metadata'', PRef 1)])
   \<and> map_of [(PStr ''id'', PStr ''P000003''), (PStr ''source_metadata'', PRef 1)]
        (PStr ''source_metadata'') = Some (PRef 1)
   \<and> mapping_at doc_store (PRef 1) =
       Some (1, [(PStr ''id'', PStr ''bdr:W22083''), (PStr ''volume'', PRef 2),
                 (PStr ''title'', PStr ''bka' 'gyur'')])
   \<and> (\<exists>st' v. get_new_meta example_turtle decimal draws_a (PRef 0) two_volumes_ttl ''W22083''
                   doc_store [] = (Inr (PRef 0), st', [title_warning ''W22083'' ''I1002''])
         \<and> 4 \<le> v
         \<and> cells st' 1 = PDict [(PStr ''id'', PStr ''bdr:W22083''), (PStr ''volume'', PRef v),
                                 (PStr ''title'', PStr ''bka' 'gyur'')]
         \<and> cells st' 0 = cells doc_store 0
         \<and> cells st' 2 = cells doc_store 2
         \<and> cells st' 3 = cells doc_store 3)"
proof -
  have sm: "map_of [(PStr ''id'', PStr ''P000003''), (PStr ''source_metadata'', PRef 1)]
        (PStr ''source_metadata'') = Some (PRef 1)"
    by simp
  have t: "top doc_store = 4"
    by (simp add: doc_store_def)
  from merge_changes_only_volume[OF run_two_volumes doc_root sm doc_source_metadata]
  obtain st' v where
    "get_new_meta example_turtle decimal draws_a (PRef 0) two_volumes_ttl ''W22083''
       doc_store [] = (Inr (PRef 0), st', [title_warning ''W22083'' ''I1002''])"
    and "4 \<le> v"
    and "cells st' 1 = PDict [(PStr ''id'', PStr ''bdr:W22083''), (PStr ''volume'', PRef v),
                               (PStr ''title'', PStr ''bka' 'gyur'')]"
    and "\<forall>b<4. b \<noteq> 1 \<longrightarrow> cells st' b = cells doc_store b"
    unfolding t by auto
  then show ?thesis
    using doc_root sm doc_source_metadata by auto
qed

text \<open>
  C10. The fetcher returns the empty string when \<^verbatim>\<open>requests.get\<close> raises. That
  the parser reads the empty document as the empty graph is a fact of rdflib and of
  the Turtle grammar, taken here as a hypothesis on \<open>turtle\<close>. Then the extractor
  returns the empty mapping and logs nothing, and the merge, on a document whose
  \<^verbatim>\<open>source_metadata\<close> is a dict, logs nothing either and makes its \<^verbatim>\<open>volume\<close>
  entry refer to a new empty dict, whatever the entry was before.
\<close>

theorem empty_text_overwrites_volume:
  assumes "requests_get (''http://purl.bdrc.io/graph/'' @ work_id @ ''.ttl'') = Inl e"
    and "turtle [] = Inr []"
    and "mapping_at st old_meta = Some (r, d)"
    and "map_of d (PStr ''source_metadata'') = Some x"
    and "mapping_at st x = Some (a, kvs)"
  shows "fst (get_ttl requests_get work_id out) = Inr []
         \<and> parse_volume_info turtle py_int draws [] work_id log = (Inr [], log)
         \<and> (\<exists>st'. get_new_meta turtle py_int draws old_meta [] work_id st log =
                      (Inr old_meta, st', log)
               \<and> cells st' a = PDict (dict_set (PStr ''volume'') (PRef (top st)) kvs)
               \<and> map_of (dict_set (PStr ''volume'') (PRef (top st)) kvs) (PStr ''volume'')
                   = Some (PRef (top st))
               \<and> cells st' (top st) = PDict [])"
proof -
  have f: "fst (get_ttl requests_get work_id out) = Inr []"
    using assms(1) by (simp add: get_ttl_def)
  have ids: "get_vol_img_grp_id_list [] work_id = []"
    by (simp add: get_vol_img_grp_id_list_def objects_def)
  have pv: "parse_volume_info turtle py_int draws [] work_id log = (Inr [], log)"
    using assms(2) by (simp add: parse_volume_info_def ids)
  from mapping_atD[OF assms(5)] have a: "a < top st"
    by simp
  from merge_succeeds[OF pv assms(3,4,5)] obtain v st1 where
    nv: "new_vol_info st [] = (PRef v, st1)"
    and run: "get_new_meta turtle py_int draws old_meta [] work_id st log =
               (Inr old_meta,
                st1\<lparr>cells := (cells st1)(a := PDict (dict_set (PStr ''volume'') (PRef v) kvs))\<rparr>,
                log)"
    by blast
  from nv have v: "v = top st"
    and st1: "st1 = st\<lparr>cells := (cells st)(top st := PDict []), top := Suc (top st)\<rparr>"
    by (auto simp: new_vol_info_empty)
  let ?st' = "st1\<lparr>cells := (cells st1)(a := PDict (dict_set (PStr ''volume'') (PRef v) kvs))\<rparr>"
  have c1: "cells ?st' a = PDict (dict_set (PStr ''volume'') (PRef (top st)) kvs)"
    using v by simp
  have c2: "cells ?st' (top st) = PDict []"
    using a st1 by simp
  have c3: "map_of (dict_set (PStr ''volume'') (PRef (top st)) kvs) (PStr ''volume'')
      = Some (PRef (top st))"
    by (simp add: map_of_dict_set)
  from run c1 c2 c3 f pv show ?thesis
    by blast
qed

theorem empty_text_overwrites_volume_witness:
  "requests_down (''http://purl.bdrc.io/graph/'' @ ''W22083'' @ ''.ttl'')
     = Inl (RequestException ''ConnectionError'')
   \<and> example_turtle [] = Inr []
   \<and> mapping_at doc_store (PRef 0) =
       Some (0, [(PStr ''id'', PStr ''P000003''), (PStr ''source_metadata'', PRef 1)])
   \<and> mapping_at doc_store (PRef 1) =
       Some (1, [(PStr ''id'', PStr ''bdr:W22083''), (PStr ''volume'', PRef 2),
                 (PStr ''title'', PStr ''bka' 'gyur'')])
   \<and> fst (get_ttl requests_down ''W22083'' []) = Inr []
   \<and> parse_volume_info example_turtle decimal draws_a [] ''W22083'' [] = (Inr [], [])
   \<and> (\<exists>st'. get_new_meta example_turtle decimal draws_a (PRef 0) [] ''W22083'' doc_store []
                = (Inr (PRef 0), st', [])
         \<and> cells st' 1 = PDict [(PStr ''id'', PStr ''bdr:W22083''), (PStr ''volume'', PRef 4),
                                 (PStr ''title'', PStr ''bka' 'gyur'')]
         \<and> cells st' 4 = PDict [])"
proof -
  have h1: "requests_down (''http://purl.bdrc.io/graph/'' @ ''W22083'' @ ''.ttl'')
     = Inl (RequestException ''ConnectionError'')"
    by (simp add: requests_down_def)
  have h2: "example_turtle [] = Inr []"
    by (simp add: example_turtle_def)
  have sm: "map_of [(PStr ''id'', PStr ''P000003''), (PStr ''source_metadata'', PRef 1)]
        (PStr ''source_metadata'') = Some (PRef 1)"
    by simp
  have t: "top doc_store = 4"
    by (simp add: doc_store_def)
  from empty_text_overwrites_volume[where requests_get = requests_down and work_id = "''W22083''"
      and turtle = example_turtle and st = doc_store and old_meta = "PRef 0" and a = 1
      and out = "[]" and py_int = decimal and draws = draws_a and log = "[]",
      OF h1 h2 doc_root sm doc_source_metadata]
  show ?thesis
    using h1 h2 doc_root doc_source_metadata unfolding t by simp
qed

text \<open>
  C4, as the code has it. The extraction runs before the \<^verbatim>\<open>try\<close>; when it returns,
  and the document is a dict that has no \<^verbatim>\<open>source_metadata\<close> key, or has one whose
  value is not a dict, the merge returns the object it was given, every object that
  existed is as it was, and one warning that starts with the work identifier is
  logged after those of the extraction.
\<close>

theorem missing_source_metadata_unchanged:
  assumes "parse_volume_info turtle py_int draws meta_ttl work_id log = (Inr vi, log1)"
    and "mapping_at st old_meta = Some (r, d)"
    and "map_of d (PStr ''source_metadata'') = None
         \<or> (\<exists>x. map_of d (PStr ''source_metadata'') = Some x
                \<and> allocated st x \<and> mapping_at st x = None)"
  shows "\<exists>st'. get_new_meta turtle py_int draws old_meta meta_ttl work_id st log =
                  (Inr old_meta, st', log1 @ [work_id @ '' doesn't have proper meta.yml''])
           \<and> (\<forall>b<top st. cells st' b = cells st b)"
proof -
  obtain x1 st1 where nv: "new_vol_info st vi = (x1, st1)"
    by (cases "new_vol_info st vi")
  from new_vol_info_frame[OF nv] have fr: "\<forall>b<top st. cells st1 b = cells st b"
    by blast
  from mapping_atD[OF assms(2)] have r: "old_meta = PRef r" "r < top st" "cells st r = PDict d"
    by simp_all
  have "get_new_meta turtle py_int draws old_meta meta_ttl work_id st log =
      (Inr old_meta, st1, log1 @ [work_id @ '' doesn't have proper meta.yml''])"
    using assms(3)
  proof
    assume "map_of d (PStr ''source_metadata'') = None"
    then have "getitem st1 old_meta ''source_metadata'' = Inl KeyError"
      using r fr by (simp add: getitem_def)
    then show ?thesis
      using assms(1) nv by (simp add: get_new_meta_def)
  next
    assume "\<exists>x. map_of d (PStr ''source_metadata'') = Some x
                \<and> allocated st x \<and> mapping_at st x = None"
    then obtain x where x: "map_of d (PStr ''source_metadata'') = Some x"
      and al: "allocated st x" and nm: "mapping_at st x = None"
      by blast
    have g: "getitem st1 old_meta ''source_metadata'' = Inr x"
      using r fr x by (simp add: getitem_def)
    have s: "setitem st1 x ''volume'' x1 = Inl TypeError"
    proof (cases x)
      case (PRef a)
      with al have a: "a < top st"
        by (simp add: allocated_def)
      with nm PRef obtain xs where "cells st a = PList xs"
        by (cases "cells st a") (simp_all add: mapping_at_def)
      with a fr PRef show ?thesis
        by (simp add: setitem_def)
    qed (simp_all add: setitem_def)
    show ?thesis
      using assms(1) nv g s by (simp add: get_new_meta_def)
  qed
  with fr show ?thesis
    by blast
qed

lemma bare_root: "mapping_at bare_store (PRef 0) = Some (0, [(PStr ''id'', PStr ''P000003'')])"
  by (simp add: mapping_at_def bare_store_def)

theorem missing_source_metadata_unchanged_witness:
  "mapping_at bare_store (PRef 0) = Some (0, [(PStr ''id'', PStr ''P000003'')])
   \<and> map_of [(PStr ''id'', PStr ''P000003'')] (PStr ''source_metadata'') = None
   \<and> (\<exists>st'. get_new_meta example_turtle decimal draws_a (PRef 0) two_volumes_ttl ''W22083''
                bare_store []
                = (Inr (PRef 0), st',
                   [title_warning ''W22083'' ''I1002'', ''W22083 doesn't have proper meta.yml''])
         \<and> cells st' 0 = PDict [(PStr ''id'', PStr ''P000003'')])"
proof -
  have h3: "map_of [(PStr ''id'', PStr ''P000003'')] (PStr ''source_metadata'') = None
         \<or> (\<exists>x. map_of [(PStr ''id'', PStr ''P000003'')] (PStr ''source_metadata'') = Some x
                \<and> allocated bare_store x \<and> mapping_at bare_store x = None)"
    by simp
  have c: "top bare_store = 1" "cells bare_store 0 = PDict [(PStr ''id'', PStr ''P000003'')]"
    by (simp_all add: bare_store_def)
  from missing_source_metadata_unchanged[OF run_two_volumes bare_root h3]
  show ?thesis
    using bare_root c by auto
qed

text \<open>
  The claim as the specification words it fails: on a document without
  \<^verbatim>\<open>source_metadata\<close> and a graph with a volume that has no number, the merge
  returns nothing and logs no warning about the document, it raises TypeError.
\<close>

theorem missing_source_metadata_counterexample:
  "mapping_at bare_store (PRef 0) = Some (0, [(PStr ''id'', PStr ''P000003'')])
   \<and> map_of [(PStr ''id'', PStr ''P000003'')] (PStr ''source_metadata'') = None
   \<and> get_new_meta example_turtle decimal draws_a (PRef 0) no_number_ttl ''W1'' bare_store [] =
       (Inl TypeError, bare_store, [title_warning ''W1'' ''I1''])"
proof -
  have run: "parse_volume_info example_turtle decimal draws_a no_number_ttl ''W1'' [] =
      volume_loop decimal draws_a no_number ''W1'' [''I1''] 0 [] []"
    by (simp only: parse_volume_info_def turtle_no_number sum.case ids_no_number)
  have "volume_record decimal no_number ''W1'' ''I1'' [] =
      (Inl TypeError, [title_warning ''W1'' ''I1''])"
    by (simp add: volume_record_def graph_value_def objects_def no_number_def BDR_def BDO_def
        RDFS_comment_def int_of_def)
  then have "parse_volume_info example_turtle decimal draws_a no_number_ttl ''W1'' [] =
      (Inl TypeError, [title_warning ''W1'' ''I1''])"
    by (simp add: run)
  then show ?thesis
    using bare_root by (simp add: get_new_meta_def)
qed

section \<open>The fetcher\<close>

text \<open>
  C3, as the code has it. \<^verbatim>\<open>get_ttl\<close> never raises. When \<^verbatim>\<open>requests.get\<close> returns
  a response, whatever its status code, the result is the body text and only the
  line "Downloading ttl file" is printed; when \<^verbatim>\<open>requests.get\<close> raises, the result
  is the empty string and the notice is printed after that line.
\<close>

theorem get_ttl_outcomes:
  "(\<forall>ttl. requests_get (''http://purl.bdrc.io/graph/'' @ work_id @ ''.ttl'') = Inr ttl \<longrightarrow>
       get_ttl requests_get work_id out = (Inr (body_text ttl), out @ [''Downloading ttl file'']))
   \<and> (\<forall>e. requests_get (''http://purl.bdrc.io/graph/'' @ work_id @ ''.ttl'') = Inl e \<longrightarrow>
       get_ttl requests_get work_id out =
         (Inr [], out @ [''Downloading ttl file'', '' TTL not Found!!!'']))
   \<and> (\<exists>s. fst (get_ttl requests_get work_id out) = Inr s)"
  by (cases "requests_get (''http://purl.bdrc.io/graph/'' @ work_id @ ''.ttl'')")
    (simp_all add: get_ttl_def)

theorem get_ttl_outcomes_witness:
  "requests_200 (''http://purl.bdrc.io/graph/'' @ ''W22083'' @ ''.ttl'')
     = Inr \<lparr>status_code = 200, body_text = two_volumes_ttl\<rparr>
   \<and> get_ttl requests_200 ''W22083'' [] = (Inr two_volumes_ttl, [''Downloading ttl file''])
   \<and> requests_down (''http://purl.bdrc.io/graph/'' @ ''W22083'' @ ''.ttl'')
     = Inl (RequestException ''ConnectionError'')
   \<and> get_ttl requests_down ''W22083'' [] =
       (Inr [], [''Downloading ttl file'', '' TTL not Found!!!''])"
proof -
  have h1: "requests_200 (''http://purl.bdrc.io/graph/'' @ ''W22083'' @ ''.ttl'')
     = Inr \<lparr>status_code = 200, body_text = two_volumes_ttl\<rparr>"
    by (simp add: requests_200_def)
  have h2: "requests_down (''http://purl.bdrc.io/graph/'' @ ''W22083'' @ ''.ttl'')
     = Inl (RequestException ''ConnectionError'')"
    by (simp add: requests_down_def)
  show ?thesis
    using h1 h2 get_ttl_outcomes[of requests_200 "''W22083''" "[]"]
      get_ttl_outcomes[of requests_down "''W22083''" "[]"]
    by simp
qed

text \<open>
  The claim as the specification words it fails on a response that is not 2xx: for
  a 404 the fetcher returns the body of the response, not the empty string, and
  prints no notice.
\<close>

theorem get_ttl_404_counterexample:
  "requests_404 (''http://purl.bdrc.io/graph/'' @ ''W22083'' @ ''.ttl'')
     = Inr \<lparr>status_code = 404, body_text = ''Not Found''\<rparr>
   \<and> get_ttl requests_404 ''W22083'' [] = (Inr ''Not Found'', [''Downloading ttl file''])"
  by (simp add: requests_404_def get_ttl_def)

end
